theory Spec2Isabelle
  imports Complex_Main
begin

section \<open>The AI weather predictor (apps/ai-predictor/app.py)\<close>

text \<open>
  The service is glue code around two scikit-learn objects (a \<open>StandardScaler\<close> and a
  \<open>RandomForestRegressor\<close>), numpy's global random generator, joblib's persistence and
  the wall clock. None of these is code of the repository, so each is a parameter of the
  model: the record \<open>lib\<close> below collects the library operations the source calls, over
  abstract types of scaler objects \<open>'sc\<close>, regressor objects \<open>'rf\<close>, random generator
  states \<open>'g\<close> and file systems \<open>'fs\<close>. Every library call that can raise returns a sum,
  \<open>Inl\<close> the exception.

  Python floats are modelled by the real numbers they denote: arithmetic is exact, and
  the non-finite values (\<open>inf\<close>, \<open>nan\<close>) are outside the model. A library call is a
  function of its arguments (and of the state it is given), and the exceptions it
  raises are instances of \<open>Exception\<close>, the class the two handlers of the source catch.

  The HTTP routes, the Prometheus counters and the latency histogram around
  \<open>predict_weather\<close> are not modelled; the method has no \<open>await\<close>, so a request runs from
  start to end without another one in between.
\<close>

subsection \<open>Data\<close>

text \<open>A raised Python \<open>Exception\<close>, with the text \<open>str(e)\<close> that the handlers log.\<close>

datatype exn = Exception string

fun str :: "exn \<Rightarrow> string" where
  "str (Exception msg) = msg"

text \<open>\<open>fastapi.HTTPException(status_code=..., detail=...)\<close>, what \<open>predict_weather\<close> raises.\<close>

datatype HTTPException = HTTPException (status_code: nat) (detail: string)

text \<open>A decoded JSON value; \<open>historical_data\<close> is an optional list of JSON objects.\<close>

datatype json =
    JNull
  | JBool bool
  | JNum real
  | JStr string
  | JArr "json list"
  | JObj "(string \<times> json) list"

type_synonym pydict = "(string \<times> json) list"

record WeatherInput =
  location :: string
  current_temp :: real
  humidity :: int
  pressure :: real
  wind_speed :: real
  historical_data :: "pydict list option"

record datetime =
  year :: nat
  month :: nat
  day :: nat
  hour :: nat
  minute :: nat
  second :: nat
  microsecond :: nat

record WeatherPrediction =
  location :: string
  predicted_temp :: real
  confidence :: real
  forecast_hours :: int
  timestamp :: datetime
  model_version :: string

text \<open>A numpy array of shape (n, m) is the list of its rows; of shape (n,) a list.\<close>

type_synonym matrix = "real list list"

text \<open>
  The library operations. \<open>transform\<close> is \<open>scaler.transform(X)\<close>, \<open>predict\<close> is
  \<open>model.predict(X)\<close>; \<open>fit_transform\<close> and \<open>fit\<close> return the fitted object (Python
  mutates it in place); \<open>rf_new n d s\<close> is
  \<open>RandomForestRegressor(n_estimators=n, max_depth=d, random_state=s)\<close>;
  \<open>np_seed\<close>, \<open>np_rand\<close>, \<open>np_normal\<close> are \<open>np.random.seed\<close>, \<open>np.random.rand\<close> and
  \<open>np.random.normal\<close> on the global generator state: they return the new state and
  the numbers drawn, by index (\<open>u i j\<close> the entry at row \<open>i\<close>, column \<open>j\<close>), since the
  shape of the array is fixed by the arguments of the call; \<open>path_exists\<close> is
  \<open>os.path.exists\<close>; \<open>load_model\<close>, \<open>load_scaler\<close> are \<open>joblib.load\<close> at the two places
  the source calls it, \<open>dump_model\<close>, \<open>dump_scaler\<close> are \<open>joblib.dump\<close>.
\<close>

record ('g, 'fs, 'sc, 'rf) lib =
  transform :: "'sc \<Rightarrow> matrix \<Rightarrow> exn + matrix"
  predict :: "'rf \<Rightarrow> matrix \<Rightarrow> exn + real list"
  fit_transform :: "'sc \<Rightarrow> matrix \<Rightarrow> exn + ('sc \<times> matrix)"
  fit :: "'rf \<Rightarrow> matrix \<Rightarrow> real list \<Rightarrow> exn + 'rf"
  sc_new :: "'sc"
  rf_new :: "nat \<Rightarrow> nat option \<Rightarrow> nat \<Rightarrow> exn + 'rf"
  np_seed :: "nat \<Rightarrow> 'g"
  np_rand :: "'g \<Rightarrow> nat \<Rightarrow> nat \<Rightarrow> (nat \<Rightarrow> nat \<Rightarrow> real) \<times> 'g"
  np_normal :: "'g \<Rightarrow> real \<Rightarrow> real \<Rightarrow> nat \<Rightarrow> (nat \<Rightarrow> real) \<times> 'g"
  path_exists :: "'fs \<Rightarrow> string \<Rightarrow> bool"
  load_model :: "'fs \<Rightarrow> string \<Rightarrow> exn + 'rf"
  load_scaler :: "'fs \<Rightarrow> string \<Rightarrow> exn + 'sc"
  dump_model :: "'fs \<Rightarrow> 'rf \<Rightarrow> string \<Rightarrow> exn + 'fs"
  dump_scaler :: "'fs \<Rightarrow> 'sc \<Rightarrow> string \<Rightarrow> exn + 'fs"

text \<open>The attributes of an \<open>AIWeatherPredictor\<close> instance; \<open>model\<close> starts as \<open>None\<close>.\<close>

record ('sc, 'rf) predictor =
  model :: "'rf option"
  scaler :: "'sc"
  model_version :: string
  is_trained :: bool

text \<open>What a request leaves behind besides its result: the library calls it made on the
  scaler and the regressor, and the lines it logged.\<close>

datatype call = Transform matrix | Predict matrix

datatype level = INFO | ERROR

type_synonym logline = "level \<times> string"

subsection \<open>Python's builtins on reals\<close>

text \<open>\<open>max(a, b)\<close> keeps \<open>a\<close> unless \<open>b > a\<close>; \<open>min(a, b)\<close> keeps \<open>a\<close> unless \<open>b < a\<close>.\<close>

definition py_max :: "real \<Rightarrow> real \<Rightarrow> real" where
  "py_max a b = (if b > a then b else a)"

definition py_min :: "real \<Rightarrow> real \<Rightarrow> real" where
  "py_min a b = (if b < a then b else a)"

text \<open>\<open>round(x, ndigits)\<close>: the nearest multiple of \<open>10 ** -ndigits\<close>, a tie going to the
  even multiple.\<close>

definition half_even :: "real \<Rightarrow> int" where
  "half_even x =
     (let f = \<lfloor>x\<rfloor>; d = x - of_int f
      in if d < 1 / 2 then f
         else if 1 / 2 < d then f + 1
         else if even f then f else f + 1)"

definition py_round :: "real \<Rightarrow> nat \<Rightarrow> real" where
  "py_round x ndigits = of_int (half_even (x * 10 ^ ndigits)) / 10 ^ ndigits"

subsection \<open>predict_weather\<close>

text \<open>
  The body of the \<open>try\<close> of \<open>predict_weather\<close> (lines 118 to 144): it returns the
  exception it raises or the prediction, and the library calls made up to there.
  \<open>now1\<close> and \<open>now2\<close> are the two readings of \<open>datetime.now()\<close>. A \<open>model\<close> that is
  \<open>None\<close> has no \<open>predict\<close> (AttributeError), and indexing an empty result with \<open>[0]\<close>
  is an IndexError. The locals \<open>predicted_temp\<close> and \<open>confidence\<close> of the source are
  \<open>predicted\<close> and \<open>conf\<close> here, the fields of the result having their names.
\<close>

definition predict_try ::
  "('g, 'fs, 'sc, 'rf) lib \<Rightarrow> ('sc, 'rf) predictor \<Rightarrow> WeatherInput \<Rightarrow> datetime \<Rightarrow> datetime
     \<Rightarrow> (exn + WeatherPrediction) \<times> call list" where
  "predict_try L self weather_input now1 now2 =
     (let current_hour = hour now1;
          features = [[current_temp weather_input,
                       of_int (humidity weather_input),
                       pressure weather_input,
                       wind_speed weather_input,
                       of_nat current_hour]]
      in case transform L (scaler self) features of
           Inl e \<Rightarrow> (Inl e, [Transform features])
         | Inr features_scaled \<Rightarrow>
             (case model self of
                None \<Rightarrow> (Inl (Exception ''AttributeError''), [Transform features])
              | Some m \<Rightarrow>
                  (case predict L m features_scaled of
                     Inl e \<Rightarrow> (Inl e, [Transform features, Predict features_scaled])
                   | Inr [] \<Rightarrow>
                       (Inl (Exception ''IndexError''),
                        [Transform features, Predict features_scaled])
                   | Inr (predicted # _) \<Rightarrow>
                       (let conf = py_min 0.95
                              (py_max 0.6 (1.0 - \<bar>predicted - current_temp weather_input\<bar> / 10))
                        in (Inr \<lparr>WeatherPrediction.location = WeatherInput.location weather_input,
                                 predicted_temp = py_round predicted 2,
                                 confidence = py_round conf 3,
                                 forecast_hours = 1,
                                 timestamp = now2,
                                 WeatherPrediction.model_version = model_version self\<rparr>,
                            [Transform features, Predict features_scaled])))))"

text \<open>
  \<open>predict_weather\<close>: the result (the \<open>HTTPException\<close> raised, or the prediction
  returned), the library calls, the log lines and the instance afterwards. Nothing in
  the method assigns to an attribute of \<open>self\<close>.
\<close>

record ('sc, 'rf) outcome =
  result :: "HTTPException + WeatherPrediction"
  calls :: "call list"
  logged :: "logline list"
  self_after :: "('sc, 'rf) predictor"

definition predict_weather ::
  "('g, 'fs, 'sc, 'rf) lib \<Rightarrow> ('sc, 'rf) predictor \<Rightarrow> WeatherInput \<Rightarrow> datetime \<Rightarrow> datetime
     \<Rightarrow> ('sc, 'rf) outcome" where
  "predict_weather L self weather_input now1 now2 =
     (if \<not> is_trained self then
        \<lparr>result = Inl (HTTPException 503 ''Model not trained''),
         calls = [], logged = [], self_after = self\<rparr>
      else
        (case predict_try L self weather_input now1 now2 of
           (Inr p, cs) \<Rightarrow> \<lparr>result = Inr p, calls = cs, logged = [], self_after = self\<rparr>
         | (Inl e, cs) \<Rightarrow>
             \<lparr>result = Inl (HTTPException 500 ''Prediction failed''),
              calls = cs,
              logged = [(ERROR, ''Prediction error: '' @ str e)],
              self_after = self\<rparr>))"

subsection \<open>Model lifecycle: _train_dummy_model, _initialize_model, __init__\<close>

text \<open>
  What the lifecycle methods read and change outside the instance: the state of numpy's
  global random generator, the file system and the log.
\<close>

record ('g, 'fs) world =
  rng :: "'g"
  files :: "'fs"
  log :: "logline list"

text \<open>\<open>np.random.rand(n, m)\<close> and \<open>np.random.normal(loc, scale, n)\<close> as arrays of the shape
  asked for.\<close>

definition rand ::
  "('g, 'fs, 'sc, 'rf) lib \<Rightarrow> 'g \<Rightarrow> nat \<Rightarrow> nat \<Rightarrow> matrix \<times> 'g" where
  "rand L g n m =
     (case np_rand L g n m of (u, g') \<Rightarrow> (map (\<lambda>i. map (u i) [0..<m]) [0..<n], g'))"

definition normal ::
  "('g, 'fs, 'sc, 'rf) lib \<Rightarrow> 'g \<Rightarrow> real \<Rightarrow> real \<Rightarrow> nat \<Rightarrow> real list \<times> 'g" where
  "normal L g loc scale n =
     (case np_normal L g loc scale n of (z, g') \<Rightarrow> (map z [0..<n], g'))"

text \<open>\<open>X[:, j]\<close> read, and \<open>X[:, j] = f(X[:, j])\<close>.\<close>

definition column :: "nat \<Rightarrow> matrix \<Rightarrow> real list" where
  "column j X = map (\<lambda>row. row ! j) X"

definition set_col :: "nat \<Rightarrow> (real \<Rightarrow> real) \<Rightarrow> matrix \<Rightarrow> matrix" where
  "set_col j f X = map (\<lambda>row. row[j := f (row ! j)]) X"

text \<open>
  Lines 84 to 96 of \<open>_train_dummy_model\<close>: the synthetic features \<open>X\<close>, the labels \<open>y\<close>
  and the generator state afterwards. The generator is seeded first, so the state it
  had before is not an argument.
\<close>

definition synthetic_data ::
  "('g, 'fs, 'sc, 'rf) lib \<Rightarrow> matrix \<times> real list \<times> 'g" where
  "synthetic_data L =
     (let g1 = np_seed L 42;
          n_samples = 1000;
          (X0, g2) = rand L g1 n_samples 5;
          X1 = set_col 0 (\<lambda>x. x * 40 - 10) X0;
          X2 = set_col 1 (\<lambda>x. x * 100) X1;
          X3 = set_col 2 (\<lambda>x. x * 100 + 950) X2;
          X4 = set_col 3 (\<lambda>x. x * 20) X3;
          X = set_col 4 (\<lambda>x. x * 24) X4;
          (noise, g3) = normal L g2 0 2 n_samples;
          y = map2 (+)
                (map2 (-)
                   (map2 (+) (column 0 X) (map (\<lambda>h. 0.1 * h) (column 1 X)))
                   (map (\<lambda>p. 0.05 * p) (column 2 X)))
                noise
      in (X, y, g3))"

text \<open>
  \<open>_train_dummy_model\<close>. A method that can raise returns the exception (or \<open>None\<close>)
  together with the instance and the world as they are at that point: the assignments
  made before the exception stay. An exception of \<open>fit_transform\<close>, \<open>fit\<close> or
  \<open>joblib.dump\<close> leaves the object or the file system of that call as it was.
\<close>

definition train_dummy_model ::
  "('g, 'fs, 'sc, 'rf) lib \<Rightarrow> ('sc, 'rf) predictor \<Rightarrow> ('g, 'fs) world
     \<Rightarrow> exn option \<times> ('sc, 'rf) predictor \<times> ('g, 'fs) world" where
  "train_dummy_model L self w =
     (case synthetic_data L of (X, y, g3) \<Rightarrow>
        (let w1 = w\<lparr>rng := g3\<rparr> in
         case fit_transform L (scaler self) X of
           Inl e \<Rightarrow> (Some e, self, w1)
         | Inr (sc, X_scaled) \<Rightarrow>
             (let self1 = self\<lparr>scaler := sc\<rparr> in
              case model self1 of
                None \<Rightarrow> (Some (Exception ''AttributeError''), self1, w1)
              | Some m \<Rightarrow>
                  (case fit L m X_scaled y of
                     Inl e \<Rightarrow> (Some e, self1, w1)
                   | Inr m' \<Rightarrow>
                       (let self2 = self1\<lparr>model := Some m', is_trained := True\<rparr> in
                        case dump_model L (files w1) m' ''model.joblib'' of
                          Inl e \<Rightarrow> (Some e, self2, w1)
                        | Inr fs1 \<Rightarrow>
                            (case dump_scaler L fs1 sc ''scaler.joblib'' of
                               Inl e \<Rightarrow> (Some e, self2, w1\<lparr>files := fs1\<rparr>)
                             | Inr fs2 \<Rightarrow>
                                 (None, self2,
                                  w1\<lparr>files := fs2,
                                     log := log w1 @
                                       [(INFO, ''Model trained with synthetic data'')]\<rparr>)))))))"

text \<open>The body of the \<open>try\<close> of \<open>_initialize_model\<close> (lines 62 to 76).\<close>

definition initialize_try ::
  "('g, 'fs, 'sc, 'rf) lib \<Rightarrow> ('sc, 'rf) predictor \<Rightarrow> ('g, 'fs) world
     \<Rightarrow> exn option \<times> ('sc, 'rf) predictor \<times> ('g, 'fs) world" where
  "initialize_try L self w =
     (if path_exists L (files w) ''model.joblib'' then
        (case load_model L (files w) ''model.joblib'' of
           Inl e \<Rightarrow> (Some e, self, w)
         | Inr m \<Rightarrow>
             (let self1 = self\<lparr>model := Some m\<rparr> in
              case load_scaler L (files w) ''scaler.joblib'' of
                Inl e \<Rightarrow> (Some e, self1, w)
              | Inr sc \<Rightarrow>
                  (None, self1\<lparr>scaler := sc, is_trained := True\<rparr>,
                   w\<lparr>log := log w @ [(INFO, ''Loaded pre-trained model'')]\<rparr>)))
      else
        (case rf_new L 100 (Some 10) 42 of
           Inl e \<Rightarrow> (Some e, self, w)
         | Inr m \<Rightarrow>
             (case train_dummy_model L (self\<lparr>model := Some m\<rparr>) w of
                (Some e, self', w') \<Rightarrow> (Some e, self', w')
              | (None, self', w') \<Rightarrow>
                  (None, self',
                   w'\<lparr>log := log w' @ [(INFO, ''Created new model with dummy data'')]\<rparr>))))"

text \<open>
  \<open>_initialize_model\<close>: the \<open>except Exception\<close> handler logs the error and replaces the
  model by a 50-tree regressor. An exception of that constructor call is not caught:
  it leaves \<open>__init__\<close> and ends the start of the process (\<open>Inl\<close>).
\<close>

definition initialize_model ::
  "('g, 'fs, 'sc, 'rf) lib \<Rightarrow> ('sc, 'rf) predictor \<Rightarrow> ('g, 'fs) world
     \<Rightarrow> exn + ('sc, 'rf) predictor \<times> ('g, 'fs) world" where
  "initialize_model L self w =
     (case initialize_try L self w of
        (None, self', w') \<Rightarrow> Inr (self', w')
      | (Some e, self', w') \<Rightarrow>
          (let w1 = w'\<lparr>log := log w' @ [(ERROR, ''Error initializing model: '' @ str e)]\<rparr> in
           case rf_new L 50 None 42 of
             Inl e' \<Rightarrow> Inl e'
           | Inr m \<Rightarrow> Inr (self'\<lparr>model := Some m\<rparr>, w1)))"

text \<open>\<open>AIWeatherPredictor()\<close>: \<open>__init__\<close>.\<close>

definition init ::
  "('g, 'fs, 'sc, 'rf) lib \<Rightarrow> ('g, 'fs) world
     \<Rightarrow> exn + ('sc, 'rf) predictor \<times> ('g, 'fs) world" where
  "init L w =
     initialize_model L
       \<lparr>model = None, scaler = sc_new L, model_version = ''1.0.0'', is_trained = False\<rparr> w"

subsection \<open>A small library instance\<close>

text \<open>
  A concrete, executable instance of the library operations, used to run the model at
  concrete inputs: a scaler is its fitted flag and transforms by the identity; a
  regressor is its number of trees and its fitted flag and predicts the first feature
  plus one eighth; a file system is the list of the paths written; every uniform draw
  is one half and every normal draw is the mean.
\<close>

definition demo_lib :: "(nat, string list, bool, nat \<times> bool) lib" where
  "demo_lib =
     \<lparr>transform = (\<lambda>sc X. if sc then Inr X else Inl (Exception ''NotFittedError'')),
      predict = (\<lambda>m X. if snd m
                        then Inr (map (\<lambda>row. case row of [] \<Rightarrow> 0 | x # _ \<Rightarrow> x + 1 / 8) X)
                        else Inl (Exception ''NotFittedError'')),
      fit_transform = (\<lambda>sc X. Inr (True, X)),
      fit = (\<lambda>m X y. Inr (fst m, True)),
      sc_new = False,
      rf_new = (\<lambda>n d s. Inr (n, False)),
      np_seed = (\<lambda>s. s),
      np_rand = (\<lambda>g n m. (\<lambda>i j. 1 / 2, g + n * m)),
      np_normal = (\<lambda>g loc scale n. (\<lambda>i. loc, g + n)),
      path_exists = (\<lambda>fs p. p \<in> set fs),
      load_model = (\<lambda>fs p. if p \<in> set fs then Inr (100, True)
                             else Inl (Exception ''FileNotFoundError'')),
      load_scaler = (\<lambda>fs p. if p \<in> set fs then Inr True
                              else Inl (Exception ''FileNotFoundError'')),
      dump_model = (\<lambda>fs m p. Inr (p # fs)),
      dump_scaler = (\<lambda>fs s p. Inr (p # fs))\<rparr>"

definition demo_self :: "(bool, nat \<times> bool) predictor" where
  "demo_self =
     \<lparr>model = Some (100, True), scaler = True, model_version = ''1.0.0'', is_trained = True\<rparr>"

definition demo_input :: WeatherInput where
  "demo_input =
     \<lparr>WeatherInput.location = ''Oslo'', current_temp = 20, humidity = 50,
      pressure = 1013, wind_speed = 5, historical_data = None\<rparr>"

definition noon :: datetime where
  "noon = \<lparr>year = 2024, month = 6, day = 1, hour = 12, minute = 0, second = 0,
            microsecond = 0\<rparr>"

definition demo_world :: "(nat, string list) world" where
  "demo_world = \<lparr>rng = 7, files = [], log = []\<rparr>"

text \<open>The same instance on a read-only file system: both \<open>joblib.dump\<close> calls raise.\<close>

definition readonly_lib :: "(nat, string list, bool, nat \<times> bool) lib" where
  "readonly_lib =
     demo_lib\<lparr>dump_model := (\<lambda>fs m p. Inl (Exception ''PermissionError'')),
              dump_scaler := (\<lambda>fs s p. Inl (Exception ''PermissionError''))\<rparr>"

section \<open>Properties\<close>

subsection \<open>Rounding and clamping\<close>






subsection \<open>The two ways through predict_weather\<close>



subsection \<open>Claims about predict_weather\<close>



text \<open>
  C2. Whatever the observation and the clock, an instance whose \<open>is_trained\<close> flag is
  false answers with the "model unavailable" failure, HTTP status 503, and returns no
  prediction; it does not even call the scaler or the regressor.
\<close>

theorem predict_untrained_unavailable:
  assumes "\<not> is_trained self"
  shows "result (predict_weather L self weather_input now1 now2)
           = Inl (HTTPException 503 ''Model not trained'')
         \<and> calls (predict_weather L self weather_input now1 now2) = []"
  using assms by (simp add: predict_weather_def)

theorem predict_untrained_unavailable_witness:
  "\<not> is_trained (demo_self\<lparr>is_trained := False\<rparr>)
   \<and> result (predict_weather demo_lib (demo_self\<lparr>is_trained := False\<rparr>) demo_input noon noon)
       = Inl (HTTPException 503 ''Model not trained'')"
  using predict_untrained_unavailable
          [of "demo_self\<lparr>is_trained := False\<rparr>" demo_lib demo_input noon noon]
  by simp


text \<open>
  C8. On a trained instance, an exception of the scaler's transform or of the regressor's
  predict is caught: the request fails with status 500 and the fixed detail
  "Prediction failed", whatever the exception was, whose text goes to the log only. And
  a request fails in two ways only: with 503 "Model not trained" when the instance is
  untrained, with 500 "Prediction failed" when it is trained.
\<close>

theorem predict_failures:
  "(is_trained self
      \<and> transform L (scaler self)
           [[current_temp w, of_int (humidity w), pressure w, wind_speed w, of_nat (hour now1)]]
         = Inl e
    \<longrightarrow> result (predict_weather L self w now1 now2)
          = Inl (HTTPException 500 ''Prediction failed'')
        \<and> logged (predict_weather L self w now1 now2)
          = [(ERROR, ''Prediction error: '' @ str e)])
   \<and> (is_trained self
      \<and> transform L (scaler self)
           [[current_temp w, of_int (humidity w), pressure w, wind_speed w, of_nat (hour now1)]]
         = Inr Xs
      \<and> model self = Some m \<and> predict L m Xs = Inl e
    \<longrightarrow> result (predict_weather L self w now1 now2)
          = Inl (HTTPException 500 ''Prediction failed'')
        \<and> logged (predict_weather L self w now1 now2)
          = [(ERROR, ''Prediction error: '' @ str e)])
   \<and> (result (predict_weather L self w now1 now2) = Inl h
    \<longrightarrow> h = (if is_trained self then HTTPException 500 ''Prediction failed''
             else HTTPException 503 ''Model not trained''))"
  by (auto simp: predict_weather_def predict_try_def Let_def
           split: sum.splits option.splits list.splits)

theorem predict_failures_witness:
  "is_trained (demo_self\<lparr>scaler := False\<rparr>)
   \<and> transform demo_lib (scaler (demo_self\<lparr>scaler := False\<rparr>)) [[20, 50, 1013, 5, 12]]
       = Inl (Exception ''NotFittedError'')
   \<and> result (predict_weather demo_lib (demo_self\<lparr>scaler := False\<rparr>) demo_input noon noon)
       = Inl (HTTPException 500 ''Prediction failed'')
   \<and> logged (predict_weather demo_lib (demo_self\<lparr>scaler := False\<rparr>) demo_input noon noon)
       = [(ERROR, ''Prediction error: NotFittedError'')]
   \<and> is_trained (demo_self\<lparr>model := Some (50, False)\<rparr>)
   \<and> predict demo_lib (50, False) [[20, 50, 1013, 5, 12]] = Inl (Exception ''NotFittedError'')
   \<and> result (predict_weather demo_lib (demo_self\<lparr>model := Some (50, False)\<rparr>) demo_input
         noon noon)
       = Inl (HTTPException 500 ''Prediction failed'')"
proof -
  let ?F = "[[20, 50, 1013, 5, 12]] :: matrix"
  let ?e = "Exception ''NotFittedError''"
  let ?s1 = "demo_self\<lparr>scaler := False\<rparr>"
  let ?s2 = "demo_self\<lparr>model := Some (50, False)\<rparr>"
  have a1: "is_trained ?s1" and a2: "transform demo_lib (scaler ?s1) ?F = Inl ?e"
    and b1: "is_trained ?s2" and b2: "transform demo_lib (scaler ?s2) ?F = Inr ?F"
    and b3: "model ?s2 = Some (50, False)" and b4: "predict demo_lib (50, False) ?F = Inl ?e"
    by (simp_all add: demo_self_def demo_lib_def)
  have f: "[[current_temp demo_input, of_int (humidity demo_input), pressure demo_input,
             wind_speed demo_input, of_nat (hour noon)]] = ?F"
    by (simp add: demo_input_def noon_def)
  have "result (predict_weather demo_lib ?s1 demo_input noon noon)
          = Inl (HTTPException 500 ''Prediction failed'')
        \<and> logged (predict_weather demo_lib ?s1 demo_input noon noon)
          = [(ERROR, ''Prediction error: '' @ str ?e)]"
    by (rule predict_failures
          [where self = ?s1 and L = demo_lib and w = demo_input and ?now1.0 = noon
             and ?now2.0 = noon and e = ?e and Xs = ?F and m = "(50, False)"
             and h = "HTTPException 500 ''Prediction failed''",
           THEN conjunct1, THEN mp])
       (unfold f, intro conjI a1 a2)
  then have r1: "result (predict_weather demo_lib ?s1 demo_input noon noon)
          = Inl (HTTPException 500 ''Prediction failed'')"
    and r2: "logged (predict_weather demo_lib ?s1 demo_input noon noon)
          = [(ERROR, ''Prediction error: NotFittedError'')]"
    by simp_all
  have "result (predict_weather demo_lib ?s2 demo_input noon noon)
          = Inl (HTTPException 500 ''Prediction failed'')
        \<and> logged (predict_weather demo_lib ?s2 demo_input noon noon)
          = [(ERROR, ''Prediction error: '' @ str ?e)]"
    by (rule predict_failures
          [where self = ?s2 and L = demo_lib and w = demo_input and ?now1.0 = noon
             and ?now2.0 = noon and e = ?e and Xs = ?F and m = "(50, False)"
             and h = "HTTPException 500 ''Prediction failed''",
           THEN conjunct2, THEN conjunct1, THEN mp])
       (unfold f, intro conjI b1 b2 b3 b4)
  then have r3: "result (predict_weather demo_lib ?s2 demo_input noon noon)
          = Inl (HTTPException 500 ''Prediction failed'')"
    by simp
  show ?thesis by (intro conjI) (rule a1 a2 r1 r2 b1 b4 r3)+
qed

text \<open>
  C9. Two requests on the same instance with the same observation, at clock readings
  with the same hour, have the same result but for the timestamp (which is the second
  clock reading of each) and make the same library calls; a request leaves the instance
  as it was, so repeating it gives the same outcome.
\<close>

theorem predict_deterministic:
  assumes "hour now1 = hour now1'"
  shows "result (predict_weather L self w now1' now2')
           = map_sum id (\<lambda>p. p\<lparr>timestamp := now2'\<rparr>)
               (result (predict_weather L self w now1 now2))
         \<and> calls (predict_weather L self w now1' now2')
             = calls (predict_weather L self w now1 now2)
         \<and> self_after (predict_weather L self w now1 now2) = self
         \<and> predict_weather L (self_after (predict_weather L self w now1 now2)) w now1 now2
             = predict_weather L self w now1 now2"
  using assms
  by (auto simp: predict_weather_def predict_try_def Let_def
           split: sum.splits option.splits list.splits)

theorem predict_deterministic_witness:
  "hour noon = hour (noon\<lparr>minute := 30\<rparr>)
   \<and> result (predict_weather demo_lib demo_self demo_input (noon\<lparr>minute := 30\<rparr>)
        (noon\<lparr>minute := 31\<rparr>))
       = map_sum id (\<lambda>p. p\<lparr>timestamp := noon\<lparr>minute := 31\<rparr>\<rparr>)
           (result (predict_weather demo_lib demo_self demo_input noon noon))
   \<and> self_after (predict_weather demo_lib demo_self demo_input noon noon) = demo_self"
  using predict_deterministic
          [of noon "noon\<lparr>minute := 30\<rparr>" demo_lib demo_self demo_input "noon\<lparr>minute := 31\<rparr>" noon]
  by simp

text \<open>
  C10. Two observations that agree on location, current temperature, humidity, pressure
  and wind speed have the same outcome (result, library calls and log lines) on every
  instance and at every clock reading, whatever their \<open>historical_data\<close>.
\<close>

theorem historical_data_ignored:
  assumes "WeatherInput.location w = WeatherInput.location w'"
    and "current_temp w = current_temp w'"
    and "humidity w = humidity w'"
    and "pressure w = pressure w'"
    and "wind_speed w = wind_speed w'"
  shows "predict_weather L self w now1 now2 = predict_weather L self w' now1 now2"
proof -
  have "predict_try L self w now1 now2 = predict_try L self w' now1 now2"
    using assms
    by (auto simp: predict_try_def Let_def split: sum.splits option.splits list.splits)
  then show ?thesis by (simp add: predict_weather_def)
qed

theorem historical_data_ignored_witness:
  "historical_data demo_input \<noteq> historical_data (demo_input\<lparr>historical_data := Some [[(''t'', JNum 19)]]\<rparr>)
   \<and> predict_weather demo_lib demo_self demo_input noon noon
       = predict_weather demo_lib demo_self
           (demo_input\<lparr>historical_data := Some [[(''t'', JNum 19)]]\<rparr>) noon noon"
  using historical_data_ignored
          [of demo_input "demo_input\<lparr>historical_data := Some [[(''t'', JNum 19)]]\<rparr>"
              demo_lib demo_self noon noon]
  by (simp add: demo_input_def)

subsection \<open>The synthetic training data\<close>

lemma upt5: "[0..<5] = [0, 1, 2, 3, 4]"
  by code_simp

lemma map2_same: "map2 f (map g xs) (map h xs) = map (\<lambda>i. f (g i) (h i)) xs"
  by (induction xs) simp_all

lemma set_col_map: "set_col j f (map g xs) = map (\<lambda>i. (g i)[j := f (g i ! j)]) xs"
  by (simp add: set_col_def)

lemma column_map: "column j (map g xs) = map (\<lambda>i. g i ! j) xs"
  by (simp add: column_def)

text \<open>The features and the labels, row by row, in terms of the numbers drawn.\<close>

lemma synthetic_data_eq:
  assumes "np_rand L (np_seed L 42) 1000 5 = (u, g2)"
    and "np_normal L g2 0 2 1000 = (z, g3)"
  shows "synthetic_data L =
           (map (\<lambda>i. [u i 0 * 40 - 10, u i 1 * 100, u i 2 * 100 + 950, u i 3 * 20, u i 4 * 24])
              [0..<1000],
            map (\<lambda>i. (u i 0 * 40 - 10) + 0.1 * (u i 1 * 100) - 0.05 * (u i 2 * 100 + 950) + z i)
              [0..<1000],
            g3)"
  using assms
  by (simp add: synthetic_data_def rand_def normal_def upt5 set_col_map column_map map2_same
        del: upt_Suc)

lemma demo_synthetic:
  "synthetic_data demo_lib =
     (map (\<lambda>i. [10, 50, 1000, 10, 12]) [0..<1000], map (\<lambda>i. - 35) [0..<1000], 6042)"
proof -
  have 1: "np_rand demo_lib (np_seed demo_lib 42) 1000 5 = (\<lambda>i j. 1 / 2, 5042)"
    by (simp add: demo_lib_def)
  have 2: "np_normal demo_lib 5042 0 2 1000 = (\<lambda>i. 0, 6042)"
    by (simp add: demo_lib_def)
  show ?thesis by (simp add: synthetic_data_eq [OF 1 2])
qed


lemma readonly_synthetic:
  "synthetic_data readonly_lib =
     (map (\<lambda>i. [10, 50, 1000, 10, 12]) [0..<1000], map (\<lambda>i. - 35) [0..<1000], 6042)"
proof -
  have 1: "np_rand readonly_lib (np_seed readonly_lib 42) 1000 5 = (\<lambda>i j. 1 / 2, 5042)"
    by (simp add: readonly_lib_def demo_lib_def)
  have 2: "np_normal readonly_lib 5042 0 2 1000 = (\<lambda>i. 0, 6042)"
    by (simp add: readonly_lib_def demo_lib_def)
  show ?thesis by (simp add: synthetic_data_eq [OF 1 2])
qed

subsection \<open>The paths through the lifecycle methods\<close>

text \<open>Training seeds the generator itself, so the generator state before it is irrelevant.\<close>

lemma train_dummy_model_rng:
  "train_dummy_model L self (w\<lparr>rng := g\<rparr>) = train_dummy_model L self w"
  by (simp add: train_dummy_model_def Let_def split: prod.splits)




text \<open>Training when every library call succeeds.\<close>

lemma train_dummy_model_ok:
  assumes "synthetic_data L = (X, y, g3)"
    and "fit_transform L (scaler self) X = Inr (sc, Xs)"
    and "model self = Some m"
    and "fit L m Xs y = Inr m'"
    and "dump_model L (files w) m' ''model.joblib'' = Inr fs1"
    and "dump_scaler L fs1 sc ''scaler.joblib'' = Inr fs2"
  shows "train_dummy_model L self w =
           (None, self\<lparr>scaler := sc, model := Some m', is_trained := True\<rparr>,
            w\<lparr>rng := g3, files := fs2,
              log := log w @ [(INFO, ''Model trained with synthetic data'')]\<rparr>)"
  using assms by (simp add: train_dummy_model_def Let_def)

text \<open>The ways through \<open>__init__\<close>: restoring, a failing load, bootstrapping, a failing dump.\<close>

lemma init_restore:
  assumes "path_exists L (files w) ''model.joblib''"
    and "load_model L (files w) ''model.joblib'' = Inr m"
    and "load_scaler L (files w) ''scaler.joblib'' = Inr sc"
  shows "init L w =
           Inr (\<lparr>model = Some m, scaler = sc, model_version = ''1.0.0'', is_trained = True\<rparr>,
                w\<lparr>log := log w @ [(INFO, ''Loaded pre-trained model'')]\<rparr>)"
  using assms by (simp add: init_def initialize_model_def initialize_try_def)

lemma init_load_fails:
  assumes "path_exists L (files w) ''model.joblib''"
    and "load_model L (files w) ''model.joblib'' = Inl e
         \<or> load_scaler L (files w) ''scaler.joblib'' = Inl e"
    and "init L w = Inr (self, w')"
  shows "\<not> is_trained self
         \<and> (\<exists>m50. rf_new L 50 None 42 = Inr m50 \<and> model self = Some m50)
         \<and> scaler self = sc_new L \<and> files w' = files w \<and> rng w' = rng w"
  using assms
  by (auto simp: init_def initialize_model_def initialize_try_def Let_def
           split: sum.splits)

lemma init_bootstrap:
  assumes "\<not> path_exists L (files w) ''model.joblib''"
    and "rf_new L 100 (Some 10) 42 = Inr m0"
    and "synthetic_data L = (X, y, g3)"
    and "fit_transform L (sc_new L) X = Inr (sc, Xs)"
    and "fit L m0 Xs y = Inr m'"
    and "dump_model L (files w) m' ''model.joblib'' = Inr fs1"
    and "dump_scaler L fs1 sc ''scaler.joblib'' = Inr fs2"
  shows "init L w =
           Inr (\<lparr>model = Some m', scaler = sc, model_version = ''1.0.0'', is_trained = True\<rparr>,
                w\<lparr>rng := g3, files := fs2,
                  log := log w @ [(INFO, ''Model trained with synthetic data''),
                                  (INFO, ''Created new model with dummy data'')]\<rparr>)"
  using assms
  by (simp add: init_def initialize_model_def initialize_try_def train_dummy_model_def Let_def)

lemma init_dump_fails:
  assumes "\<not> path_exists L (files w) ''model.joblib''"
    and "rf_new L 100 (Some 10) 42 = Inr m0"
    and "synthetic_data L = (X, y, g3)"
    and "fit_transform L (sc_new L) X = Inr (sc, Xs)"
    and "fit L m0 Xs y = Inr m'"
    and "dump_model L (files w) m' ''model.joblib'' = Inl e"
    and "rf_new L 50 None 42 = Inr m50"
  shows "init L w =
           Inr (\<lparr>model = Some m50, scaler = sc, model_version = ''1.0.0'', is_trained = True\<rparr>,
                w\<lparr>rng := g3,
                  log := log w @ [(ERROR, ''Error initializing model: '' @ str e)]\<rparr>)"
  using assms
  by (simp add: init_def initialize_model_def initialize_try_def train_dummy_model_def Let_def)

lemma init_loaded_only_if:
  assumes "init L w = Inr (self, w')"
    and "log w' = log w @ [(INFO, ''Loaded pre-trained model'')]"
  shows "path_exists L (files w) ''model.joblib''
         \<and> (\<exists>m. load_model L (files w) ''model.joblib'' = Inr m \<and> model self = Some m)
         \<and> load_scaler L (files w) ''scaler.joblib'' = Inr (scaler self)
         \<and> is_trained self"
  using assms
  by (auto simp: init_def initialize_model_def initialize_try_def train_dummy_model_def Let_def
           split: sum.splits if_splits prod.splits option.splits)

subsection \<open>Claims about the model lifecycle\<close>

text \<open>
  C3, as stated, fails. Take a file system that holds \<open>model.joblib\<close> but not
  \<open>scaler.joblib\<close>: the artifacts do not both exist, so the claim promises a new 100-tree
  regressor, bootstrap training and both artifacts persisted. The code tests only
  \<open>model.joblib\<close> for existence, loads the model, fails to load the scaler and lands in
  the handler: the instance has the unfitted 50-tree regressor and the unfitted scaler,
  is not trained, and nothing was written.
\<close>

theorem init_missing_scaler_counterexample:
  "path_exists demo_lib [''model.joblib''] ''model.joblib''
   \<and> \<not> path_exists demo_lib [''model.joblib''] ''scaler.joblib''
   \<and> init demo_lib (demo_world\<lparr>files := [''model.joblib'']\<rparr>)
     = Inr (\<lparr>model = Some (50, False), scaler = False, model_version = ''1.0.0'', is_trained = False\<rparr>,
            \<lparr>rng = 7, files = [''model.joblib''],
             log = [(ERROR, ''Error initializing model: FileNotFoundError'')]\<rparr>)"
  by (simp add: init_def initialize_model_def initialize_try_def demo_lib_def demo_world_def)

text \<open>
  C3, amended. \<open>__init__\<close> restores the instance from the persisted artifacts and marks it
  trained exactly when \<open>model.joblib\<close> exists and both artifacts load without an
  exception (first and second part; restoring is what logs "Loaded pre-trained model").
  When \<open>model.joblib\<close> exists and a load raises, nothing is bootstrapped: the instance
  that results is untrained, holds the 50-tree regressor and the fresh scaler, and
  neither the file system nor the random generator was touched (third part). When
  \<open>model.joblib\<close> does not exist, a regressor of 100 trees, maximal depth 10 and seed 42
  is constructed and, when fitting and persisting raise nothing, the fresh scaler is fit
  on the synthetic features, the regressor on the scaled features and the labels, the
  instance is marked trained and both artifacts are persisted (fourth part).
\<close>

theorem init_restore_or_bootstrap:
  "(path_exists L (files w) ''model.joblib''
      \<and> load_model L (files w) ''model.joblib'' = Inr m
      \<and> load_scaler L (files w) ''scaler.joblib'' = Inr sc
    \<longrightarrow> init L w =
          Inr (\<lparr>model = Some m, scaler = sc, model_version = ''1.0.0'', is_trained = True\<rparr>,
               w\<lparr>log := log w @ [(INFO, ''Loaded pre-trained model'')]\<rparr>))
   \<and> (init L w = Inr (self, w') \<and> log w' = log w @ [(INFO, ''Loaded pre-trained model'')]
    \<longrightarrow> path_exists L (files w) ''model.joblib''
        \<and> (\<exists>m. load_model L (files w) ''model.joblib'' = Inr m \<and> model self = Some m)
        \<and> load_scaler L (files w) ''scaler.joblib'' = Inr (scaler self)
        \<and> is_trained self)
   \<and> (path_exists L (files w) ''model.joblib''
      \<and> (load_model L (files w) ''model.joblib'' = Inl e
          \<or> load_scaler L (files w) ''scaler.joblib'' = Inl e)
      \<and> init L w = Inr (self, w')
    \<longrightarrow> \<not> is_trained self
        \<and> (\<exists>m50. rf_new L 50 None 42 = Inr m50 \<and> model self = Some m50)
        \<and> scaler self = sc_new L \<and> files w' = files w \<and> rng w' = rng w)
   \<and> (\<not> path_exists L (files w) ''model.joblib''
      \<and> rf_new L 100 (Some 10) 42 = Inr m0
      \<and> synthetic_data L = (X, y, g3)
      \<and> fit_transform L (sc_new L) X = Inr (sc', Xs)
      \<and> fit L m0 Xs y = Inr m'
      \<and> dump_model L (files w) m' ''model.joblib'' = Inr fs1
      \<and> dump_scaler L fs1 sc' ''scaler.joblib'' = Inr fs2
    \<longrightarrow> init L w =
          Inr (\<lparr>model = Some m', scaler = sc', model_version = ''1.0.0'', is_trained = True\<rparr>,
               w\<lparr>rng := g3, files := fs2,
                 log := log w @ [(INFO, ''Model trained with synthetic data''),
                                 (INFO, ''Created new model with dummy data'')]\<rparr>))"
proof (intro conjI impI)
  assume "path_exists L (files w) ''model.joblib''
      \<and> load_model L (files w) ''model.joblib'' = Inr m
      \<and> load_scaler L (files w) ''scaler.joblib'' = Inr sc"
  then show "init L w =
          Inr (\<lparr>model = Some m, scaler = sc, model_version = ''1.0.0'', is_trained = True\<rparr>,
               w\<lparr>log := log w @ [(INFO, ''Loaded pre-trained model'')]\<rparr>)"
    by (simp add: init_restore)
next
  assume a: "init L w = Inr (self, w') \<and> log w' = log w @ [(INFO, ''Loaded pre-trained model'')]"
  from init_loaded_only_if [of L w self w'] a
  show "path_exists L (files w) ''model.joblib''"
    and "\<exists>m. load_model L (files w) ''model.joblib'' = Inr m \<and> model self = Some m"
    and "load_scaler L (files w) ''scaler.joblib'' = Inr (scaler self)"
    and "is_trained self"
    by simp_all
next
  assume a: "path_exists L (files w) ''model.joblib''
      \<and> (load_model L (files w) ''model.joblib'' = Inl e
          \<or> load_scaler L (files w) ''scaler.joblib'' = Inl e)
      \<and> init L w = Inr (self, w')"
  from init_load_fails [of L w e self w'] a
  show "\<not> is_trained self"
    and "\<exists>m50. rf_new L 50 None 42 = Inr m50 \<and> model self = Some m50"
    and "scaler self = sc_new L" and "files w' = files w" and "rng w' = rng w"
    by simp_all
next
  assume "\<not> path_exists L (files w) ''model.joblib''
      \<and> rf_new L 100 (Some 10) 42 = Inr m0
      \<and> synthetic_data L = (X, y, g3)
      \<and> fit_transform L (sc_new L) X = Inr (sc', Xs)
      \<and> fit L m0 Xs y = Inr m'
      \<and> dump_model L (files w) m' ''model.joblib'' = Inr fs1
      \<and> dump_scaler L fs1 sc' ''scaler.joblib'' = Inr fs2"
  then show "init L w =
          Inr (\<lparr>model = Some m', scaler = sc', model_version = ''1.0.0'', is_trained = True\<rparr>,
               w\<lparr>rng := g3, files := fs2,
                 log := log w @ [(INFO, ''Model trained with synthetic data''),
                                 (INFO, ''Created new model with dummy data'')]\<rparr>)"
    by (simp add: init_bootstrap)
qed

theorem init_restore_or_bootstrap_witness:
  "\<not> path_exists demo_lib (files demo_world) ''model.joblib''
   \<and> rf_new demo_lib 100 (Some 10) 42 = Inr (100, False)
   \<and> init demo_lib demo_world =
       Inr (\<lparr>model = Some (100, True), scaler = True, model_version = ''1.0.0'',
             is_trained = True\<rparr>,
            \<lparr>rng = 6042, files = [''scaler.joblib'', ''model.joblib''],
             log = [(INFO, ''Model trained with synthetic data''),
                    (INFO, ''Created new model with dummy data'')]\<rparr>)
   \<and> path_exists demo_lib [''scaler.joblib'', ''model.joblib''] ''model.joblib''
   \<and> load_model demo_lib [''scaler.joblib'', ''model.joblib''] ''model.joblib''
       = Inr (100, True)
   \<and> load_scaler demo_lib [''scaler.joblib'', ''model.joblib''] ''scaler.joblib'' = Inr True
   \<and> init demo_lib (demo_world\<lparr>files := [''scaler.joblib'', ''model.joblib'']\<rparr>) =
       Inr (demo_self,
            \<lparr>rng = 7, files = [''scaler.joblib'', ''model.joblib''],
             log = [(INFO, ''Loaded pre-trained model'')]\<rparr>)
   \<and> is_trained demo_self
   \<and> path_exists demo_lib [''model.joblib''] ''model.joblib''
   \<and> load_scaler demo_lib [''model.joblib''] ''scaler.joblib''
       = Inl (Exception ''FileNotFoundError'')
   \<and> init demo_lib (demo_world\<lparr>files := [''model.joblib'']\<rparr>) =
       Inr (\<lparr>model = Some (50, False), scaler = False, model_version = ''1.0.0'',
             is_trained = False\<rparr>,
            \<lparr>rng = 7, files = [''model.joblib''],
             log = [(ERROR, ''Error initializing model: FileNotFoundError'')]\<rparr>)
   \<and> rf_new demo_lib 50 None 42 = Inr (50, False)"
proof -
  let ?X = "map (\<lambda>i. [10, 50, 1000, 10, 12]) [0..<1000]"
  let ?both = "demo_world\<lparr>files := [''scaler.joblib'', ''model.joblib'']\<rparr>"
  let ?one = "demo_world\<lparr>files := [''model.joblib'']\<rparr>"
  let ?degraded = "\<lparr>model = Some (50, False), scaler = False, model_version = ''1.0.0'',
                    is_trained = False\<rparr> :: (bool, nat \<times> bool) predictor"
  let ?w1 = "?one\<lparr>log := [(ERROR, ''Error initializing model: FileNotFoundError'')]\<rparr>"
  note bootstrap =
    init_restore_or_bootstrap
      [where L = demo_lib and w = demo_world and m = "(100, True)" and sc = True
         and self = demo_self and w' = demo_world and e = "Exception ''FileNotFoundError''"
         and ?m0.0 = "(100, False)" and X = ?X and y = "map (\<lambda>i. - 35) [0..<1000]"
         and ?g3.0 = 6042 and sc' = True and Xs = ?X and m' = "(100, True)"
         and ?fs1.0 = "[''model.joblib'']"
         and ?fs2.0 = "[''scaler.joblib'', ''model.joblib'']",
       THEN conjunct2, THEN conjunct2, THEN conjunct2, THEN mp]
  note restore =
    init_restore_or_bootstrap
      [where L = demo_lib and w = ?both and m = "(100, True)" and sc = True
         and self = demo_self
         and w' = "?both\<lparr>log := log ?both @ [(INFO, ''Loaded pre-trained model'')]\<rparr>"
         and e = "Exception ''FileNotFoundError''"
         and ?m0.0 = "(100, False)" and X = "[]" and y = "[]" and ?g3.0 = 6042
         and sc' = True and Xs = "[]" and m' = "(100, True)"
         and ?fs1.0 = "[]" and ?fs2.0 = "[]"]
  note degrade =
    init_restore_or_bootstrap
      [where L = demo_lib and w = ?one and m = "(100, True)" and sc = True
         and self = ?degraded and w' = ?w1
         and e = "Exception ''FileNotFoundError''"
         and ?m0.0 = "(100, False)" and X = "[]" and y = "[]" and ?g3.0 = 6042
         and sc' = True and Xs = "[]" and m' = "(100, True)"
         and ?fs1.0 = "[]" and ?fs2.0 = "[]",
       THEN conjunct2, THEN conjunct2, THEN conjunct1, THEN mp]
  have h1: "path_exists demo_lib [''scaler.joblib'', ''model.joblib''] ''model.joblib''"
    and h2: "load_model demo_lib [''scaler.joblib'', ''model.joblib''] ''model.joblib''
       = Inr (100, True)"
    and h3: "load_scaler demo_lib [''scaler.joblib'', ''model.joblib''] ''scaler.joblib''
       = Inr True"
    and h4: "path_exists demo_lib [''model.joblib''] ''model.joblib''"
    and h5: "load_scaler demo_lib [''model.joblib''] ''scaler.joblib''
       = Inl (Exception ''FileNotFoundError'')"
    and h6: "\<not> path_exists demo_lib (files demo_world) ''model.joblib''"
    and h7: "rf_new demo_lib 100 (Some 10) 42 = Inr (100, False)"
    and h8: "rf_new demo_lib 50 None 42 = Inr (50, False)"
    by (simp_all add: demo_lib_def demo_world_def)
  have b: "init demo_lib demo_world =
       Inr (\<lparr>model = Some (100, True), scaler = True, model_version = ''1.0.0'',
             is_trained = True\<rparr>,
            demo_world\<lparr>rng := 6042, files := [''scaler.joblib'', ''model.joblib''],
              log := log demo_world @ [(INFO, ''Model trained with synthetic data''),
                    (INFO, ''Created new model with dummy data'')]\<rparr>)"
    by (rule bootstrap) (simp add: demo_synthetic h6 h7, simp add: demo_lib_def demo_world_def)
  have l: "init demo_lib ?both =
       Inr (\<lparr>model = Some (100, True), scaler = True, model_version = ''1.0.0'',
             is_trained = True\<rparr>,
            ?both\<lparr>log := log ?both @ [(INFO, ''Loaded pre-trained model'')]\<rparr>)"
    by (rule restore [THEN conjunct1, THEN mp]) (simp add: demo_world_def h1 h2 h3)
  have l2: "init demo_lib ?both =
       Inr (demo_self, ?both\<lparr>log := log ?both @ [(INFO, ''Loaded pre-trained model'')]\<rparr>)"
    using l by (simp add: demo_self_def)
  have "path_exists demo_lib (files ?both) ''model.joblib''
        \<and> (\<exists>m. load_model demo_lib (files ?both) ''model.joblib'' = Inr m
                \<and> model demo_self = Some m)
        \<and> load_scaler demo_lib (files ?both) ''scaler.joblib'' = Inr (scaler demo_self)
        \<and> is_trained demo_self"
    by (rule restore [THEN conjunct2, THEN conjunct1, THEN mp]) (simp add: l2)
  then have t: "is_trained demo_self" by simp
  have f: "init demo_lib ?one = Inr (?degraded, ?w1)"
    by (simp add: init_def initialize_model_def initialize_try_def demo_lib_def
          demo_world_def)
  have d: "\<not> is_trained ?degraded
        \<and> (\<exists>m50. rf_new demo_lib 50 None 42 = Inr m50 \<and> model ?degraded = Some m50)
        \<and> scaler ?degraded = sc_new demo_lib \<and> files ?w1 = files ?one \<and> rng ?w1 = rng ?one"
    by (rule degrade) (simp add: f h4 h5)
  have b': "init demo_lib demo_world =
       Inr (\<lparr>model = Some (100, True), scaler = True, model_version = ''1.0.0'',
             is_trained = True\<rparr>,
            \<lparr>rng = 6042, files = [''scaler.joblib'', ''model.joblib''],
             log = [(INFO, ''Model trained with synthetic data''),
                    (INFO, ''Created new model with dummy data'')]\<rparr>)"
    using b by (simp add: demo_world_def)
  have l': "init demo_lib ?both =
       Inr (demo_self,
            \<lparr>rng = 7, files = [''scaler.joblib'', ''model.joblib''],
             log = [(INFO, ''Loaded pre-trained model'')]\<rparr>)"
    using l by (simp add: demo_world_def demo_self_def)
  have f': "init demo_lib ?one =
       Inr (?degraded,
            \<lparr>rng = 7, files = [''model.joblib''],
             log = [(ERROR, ''Error initializing model: FileNotFoundError'')]\<rparr>)"
    using f d by (simp add: demo_world_def)
  show ?thesis
    by (intro conjI) (rule h6 h7 b' h1 h2 h3 l' t h4 h5 f' h8)+
qed

text \<open>
  C4. The handler of \<open>_initialize_model\<close> replaces the model by the 50-tree regressor but
  leaves \<open>is_trained\<close> as the \<open>try\<close> left it, and \<open>_train_dummy_model\<close> sets the flag before
  it persists the artifacts. On a read-only file system the first \<open>joblib.dump\<close> raises:
  start-up ends with \<open>is_trained\<close> true and the unfitted 50-tree regressor, and a request
  then fails with 500 "Prediction failed", not with the 503 of an untrained model.
\<close>

theorem init_dump_failure_keeps_trained_flag:
  "init readonly_lib demo_world
     = Inr (\<lparr>model = Some (50, False), scaler = True, model_version = ''1.0.0'', is_trained = True\<rparr>,
            \<lparr>rng = 6042, files = [],
             log = [(ERROR, ''Error initializing model: PermissionError'')]\<rparr>)
   \<and> result (predict_weather readonly_lib
        \<lparr>model = Some (50, False), scaler = True, model_version = ''1.0.0'', is_trained = True\<rparr>
        demo_input noon noon)
     = Inl (HTTPException 500 ''Prediction failed'')"
proof -
  have "init readonly_lib demo_world
     = Inr (\<lparr>model = Some (50, False), scaler = True, model_version = ''1.0.0'', is_trained = True\<rparr>,
            demo_world\<lparr>rng := 6042,
              log := log demo_world @ [(ERROR, ''Error initializing model: '' @ str (Exception ''PermissionError''))]\<rparr>)"
    by (rule init_dump_fails [OF _ _ readonly_synthetic])
       (simp_all add: readonly_lib_def demo_lib_def demo_world_def)
  moreover have "result (predict_weather readonly_lib
        \<lparr>model = Some (50, False), scaler = True, model_version = ''1.0.0'', is_trained = True\<rparr>
        demo_input noon noon)
     = Inl (HTTPException 500 ''Prediction failed'')"
    by (simp add: predict_weather_def predict_try_def Let_def readonly_lib_def demo_lib_def
          demo_input_def noon_def)
  ultimately show ?thesis by (simp add: demo_world_def)
qed

text \<open>
  C5. Bootstrap training, given the numbers numpy draws after \<open>seed(42)\<close>: \<open>u\<close> from
  \<open>rand(1000, 5)\<close>, uniform in [0, 1) by numpy's contract, and then \<open>z\<close> from
  \<open>normal(0, 2, 1000)\<close>. There are exactly 1000 samples of five features; row \<open>i\<close> is the
  draws of row \<open>i\<close> remapped to a temperature in [-10, 30), a humidity in [0, 100), a
  pressure in [950, 1050), a wind speed in [0, 20) and an hour in [0, 24); its label is
  temperature + 0.1 * humidity - 0.05 * pressure + \<open>z i\<close>. When nothing raises, the
  scaler of the instance becomes the one fit on these raw features and the regressor
  the one fit on the scaled features and the labels. Training does not depend on the
  state the generator had before: two runs on the same instance give the same fitted
  instance, and so the same outcome of every request. That the draws are independent,
  uniform and Gaussian is numpy's contract for the two calls; the model takes the
  numbers drawn as given.
\<close>

theorem bootstrap_training:
  assumes draws: "np_rand L (np_seed L 42) 1000 5 = (u, g2)"
    and noise: "np_normal L g2 0 2 1000 = (z, g3)"
    and uniform: "\<forall>i<1000. \<forall>j<5. 0 \<le> u i j \<and> u i j < 1"
  shows "\<exists>X y. synthetic_data L = (X, y, g3)
           \<and> length X = 1000 \<and> length y = 1000
           \<and> (\<forall>i<1000.
                X ! i = [u i 0 * 40 - 10, u i 1 * 100, u i 2 * 100 + 950, u i 3 * 20, u i 4 * 24]
                \<and> - 10 \<le> X ! i ! 0 \<and> X ! i ! 0 < 30
                \<and> 0 \<le> X ! i ! 1 \<and> X ! i ! 1 < 100
                \<and> 950 \<le> X ! i ! 2 \<and> X ! i ! 2 < 1050
                \<and> 0 \<le> X ! i ! 3 \<and> X ! i ! 3 < 20
                \<and> 0 \<le> X ! i ! 4 \<and> X ! i ! 4 < 24
                \<and> y ! i = X ! i ! 0 + 0.1 * (X ! i ! 1) - 0.05 * (X ! i ! 2) + z i)
           \<and> (\<forall>self w sc Xs m m' fs1 fs2.
                fit_transform L (scaler self) X = Inr (sc, Xs) \<and> model self = Some m
                \<and> fit L m Xs y = Inr m'
                \<and> dump_model L (files w) m' ''model.joblib'' = Inr fs1
                \<and> dump_scaler L fs1 sc ''scaler.joblib'' = Inr fs2
                \<longrightarrow> train_dummy_model L self w =
                      (None, self\<lparr>scaler := sc, model := Some m', is_trained := True\<rparr>,
                       w\<lparr>rng := g3, files := fs2,
                         log := log w @ [(INFO, ''Model trained with synthetic data'')]\<rparr>))
           \<and> (\<forall>self w g. train_dummy_model L self (w\<lparr>rng := g\<rparr>) = train_dummy_model L self w)
           \<and> (\<forall>self w g g' inp now1 now2.
                predict_weather L (fst (snd (train_dummy_model L self (w\<lparr>rng := g\<rparr>)))) inp now1 now2
                = predict_weather L (fst (snd (train_dummy_model L self (w\<lparr>rng := g'\<rparr>)))) inp now1 now2)"
proof -
  let ?row = "\<lambda>i. [u i 0 * 40 - 10, u i 1 * 100, u i 2 * 100 + 950, u i 3 * 20, u i 4 * 24]"
  let ?lab = "\<lambda>i. (u i 0 * 40 - 10) + 0.1 * (u i 1 * 100) - 0.05 * (u i 2 * 100 + 950) + z i"
  let ?X = "map ?row [0..<1000]"
  let ?y = "map ?lab [0..<1000]"
  have sd: "synthetic_data L = (?X, ?y, g3)"
    by (rule synthetic_data_eq [OF draws noise])
  have len: "length ?X = 1000" "length ?y = 1000" by simp_all
  have rows: "\<forall>i<1000.
                ?X ! i = ?row i
                \<and> - 10 \<le> ?X ! i ! 0 \<and> ?X ! i ! 0 < 30
                \<and> 0 \<le> ?X ! i ! 1 \<and> ?X ! i ! 1 < 100
                \<and> 950 \<le> ?X ! i ! 2 \<and> ?X ! i ! 2 < 1050
                \<and> 0 \<le> ?X ! i ! 3 \<and> ?X ! i ! 3 < 20
                \<and> 0 \<le> ?X ! i ! 4 \<and> ?X ! i ! 4 < 24
                \<and> ?y ! i = ?X ! i ! 0 + 0.1 * (?X ! i ! 1) - 0.05 * (?X ! i ! 2) + z i"
  proof (intro allI impI)
    fix i :: nat
    assume i: "i < 1000"
    have u0: "0 \<le> u i 0 \<and> u i 0 < 1" using uniform i by simp
    have u1: "0 \<le> u i 1 \<and> u i 1 < 1" using uniform i by simp
    have u2: "0 \<le> u i 2 \<and> u i 2 < 1" using uniform i by simp
    have u3: "0 \<le> u i 3 \<and> u i 3 < 1" using uniform i by simp
    have u4: "0 \<le> u i 4 \<and> u i 4 < 1" using uniform i by simp
    have X: "?X ! i = ?row i" using i by simp
    have y: "?y ! i = ?lab i" using i by simp
    show "?X ! i = ?row i
                \<and> - 10 \<le> ?X ! i ! 0 \<and> ?X ! i ! 0 < 30
                \<and> 0 \<le> ?X ! i ! 1 \<and> ?X ! i ! 1 < 100
                \<and> 950 \<le> ?X ! i ! 2 \<and> ?X ! i ! 2 < 1050
                \<and> 0 \<le> ?X ! i ! 3 \<and> ?X ! i ! 3 < 20
                \<and> 0 \<le> ?X ! i ! 4 \<and> ?X ! i ! 4 < 24
                \<and> ?y ! i = ?X ! i ! 0 + 0.1 * (?X ! i ! 1) - 0.05 * (?X ! i ! 2) + z i"
      unfolding X y using u0 u1 u2 u3 u4 by simp
  qed
  have fits: "\<forall>self w sc Xs m m' fs1 fs2.
                fit_transform L (scaler self) ?X = Inr (sc, Xs) \<and> model self = Some m
                \<and> fit L m Xs ?y = Inr m'
                \<and> dump_model L (files w) m' ''model.joblib'' = Inr fs1
                \<and> dump_scaler L fs1 sc ''scaler.joblib'' = Inr fs2
                \<longrightarrow> train_dummy_model L self w =
                      (None, self\<lparr>scaler := sc, model := Some m', is_trained := True\<rparr>,
                       w\<lparr>rng := g3, files := fs2,
                         log := log w @ [(INFO, ''Model trained with synthetic data'')]\<rparr>)"
  proof (intro allI impI, elim conjE)
    fix self :: "('c, 'd) predictor" and w :: "('a, 'b) world" and sc Xs m m' fs1 fs2
    assume "fit_transform L (scaler self) ?X = Inr (sc, Xs)" "model self = Some m"
      "fit L m Xs ?y = Inr m'" "dump_model L (files w) m' ''model.joblib'' = Inr fs1"
      "dump_scaler L fs1 sc ''scaler.joblib'' = Inr fs2"
    then show "train_dummy_model L self w =
                      (None, self\<lparr>scaler := sc, model := Some m', is_trained := True\<rparr>,
                       w\<lparr>rng := g3, files := fs2,
                         log := log w @ [(INFO, ''Model trained with synthetic data'')]\<rparr>)"
      by (rule train_dummy_model_ok [OF sd])
  qed
  have det: "\<forall>self w g. train_dummy_model L self (w\<lparr>rng := g\<rparr>) = train_dummy_model L self w"
    by (simp add: train_dummy_model_rng)
  have det2: "\<forall>self w g g' inp now1 now2.
                predict_weather L (fst (snd (train_dummy_model L self (w\<lparr>rng := g\<rparr>)))) inp now1 now2
                = predict_weather L (fst (snd (train_dummy_model L self (w\<lparr>rng := g'\<rparr>)))) inp now1 now2"
    by (simp add: train_dummy_model_rng)
  show ?thesis
    by (rule exI [of _ ?X], rule exI [of _ ?y], intro conjI)
       (rule sd, rule len(1), rule len(2), rule rows, rule fits, rule det, rule det2)
qed

theorem bootstrap_training_witness:
  "np_rand demo_lib (np_seed demo_lib 42) 1000 5 = (\<lambda>i j. 1 / 2, 5042)
   \<and> np_normal demo_lib 5042 0 2 1000 = (\<lambda>i. 0, 6042)
   \<and> (\<exists>X y. synthetic_data demo_lib = (X, y, 6042)
          \<and> length X = 1000 \<and> length y = 1000
          \<and> X ! 0 = [10, 50, 1000, 10, 12] \<and> y ! 0 = - 35
          \<and> fit_transform demo_lib False X = Inr (True, X)
          \<and> fit demo_lib (100, False) X y = Inr (100, True)
          \<and> train_dummy_model demo_lib
               \<lparr>model = Some (100, False), scaler = False, model_version = ''1.0.0'',
                is_trained = False\<rparr> demo_world
              = (None,
                 \<lparr>model = Some (100, True), scaler = True, model_version = ''1.0.0'',
                  is_trained = True\<rparr>,
                 \<lparr>rng = 6042, files = [''scaler.joblib'', ''model.joblib''],
                  log = [(INFO, ''Model trained with synthetic data'')]\<rparr>))"
proof -
  let ?s0 = "\<lparr>model = Some (100, False), scaler = False, model_version = ''1.0.0'',
              is_trained = False\<rparr> :: (bool, nat \<times> bool) predictor"
  have 1: "np_rand demo_lib (np_seed demo_lib 42) 1000 5 = (\<lambda>i j. 1 / 2, 5042)"
    by (simp add: demo_lib_def)
  have 2: "np_normal demo_lib 5042 0 2 1000 = (\<lambda>i. 0, 6042)"
    by (simp add: demo_lib_def)
  have 3: "\<forall>i<1000. \<forall>j<5. 0 \<le> (\<lambda>i j. 1 / 2 :: real) i j \<and> (\<lambda>i j. 1 / 2 :: real) i j < 1"
    by simp
  from bootstrap_training [OF 1 2 3] obtain X y where
    sd: "synthetic_data demo_lib = (X, y, 6042)"
    and len: "length X = 1000" "length y = 1000"
    and rows: "\<forall>i<1000.
                X ! i = [(1 / 2) * 40 - 10, (1 / 2) * 100, (1 / 2) * 100 + 950, (1 / 2) * 20,
                         (1 / 2) * 24]
                \<and> - 10 \<le> X ! i ! 0 \<and> X ! i ! 0 < 30
                \<and> 0 \<le> X ! i ! 1 \<and> X ! i ! 1 < 100
                \<and> 950 \<le> X ! i ! 2 \<and> X ! i ! 2 < 1050
                \<and> 0 \<le> X ! i ! 3 \<and> X ! i ! 3 < 20
                \<and> 0 \<le> X ! i ! 4 \<and> X ! i ! 4 < 24
                \<and> y ! i = X ! i ! 0 + 0.1 * (X ! i ! 1) - 0.05 * (X ! i ! 2) + 0"
    and fits: "\<forall>(self :: (bool, nat \<times> bool) predictor) (w :: (nat, string list) world)
                 sc Xs m m' fs1 fs2.
                fit_transform demo_lib (scaler self) X = Inr (sc, Xs) \<and> model self = Some m
                \<and> fit demo_lib m Xs y = Inr m'
                \<and> dump_model demo_lib (files w) m' ''model.joblib'' = Inr fs1
                \<and> dump_scaler demo_lib fs1 sc ''scaler.joblib'' = Inr fs2
                \<longrightarrow> train_dummy_model demo_lib self w =
                      (None, self\<lparr>scaler := sc, model := Some m', is_trained := True\<rparr>,
                       w\<lparr>rng := 6042, files := fs2,
                         log := log w @ [(INFO, ''Model trained with synthetic data'')]\<rparr>)"
    by (elim exE conjE) (rule that)
  from rows have r0: "X ! 0 = [10, 50, 1000, 10, 12]" by simp
  from rows have "y ! 0 = X ! 0 ! 0 + 0.1 * (X ! 0 ! 1) - 0.05 * (X ! 0 ! 2) + 0" by simp
  then have y0: "y ! 0 = - 35" unfolding r0 by simp
  have ft: "fit_transform demo_lib False X = Inr (True, X)"
    and fi: "fit demo_lib (100, False) X y = Inr (100, True)"
    by (simp_all add: demo_lib_def)
  have "train_dummy_model demo_lib ?s0 demo_world =
          (None, ?s0\<lparr>scaler := True, model := Some (100, True), is_trained := True\<rparr>,
           demo_world\<lparr>rng := 6042, files := [''scaler.joblib'', ''model.joblib''],
             log := log demo_world @ [(INFO, ''Model trained with synthetic data'')]\<rparr>)"
    by (rule fits [rule_format, where Xs = X and m = "(100, False)"
                     and ?fs1.0 = "[''model.joblib'']"])
       (simp add: demo_lib_def demo_world_def)
  then have tr: "train_dummy_model demo_lib ?s0 demo_world
              = (None,
                 \<lparr>model = Some (100, True), scaler = True, model_version = ''1.0.0'',
                  is_trained = True\<rparr>,
                 \<lparr>rng = 6042, files = [''scaler.joblib'', ''model.joblib''],
                  log = [(INFO, ''Model trained with synthetic data'')]\<rparr>)"
    by (simp add: demo_world_def)
  show ?thesis using 1 2 sd len r0 y0 ft fi tr by simp
qed




end
